theory Spec2Isabelle
  imports Main
begin

section \<open>Request values\<close>

text \<open>
  The controllers of \<^verbatim>\<open>bidController.js\<close> and of the auction item controller read
  their inputs from the request. The amount of a bid comes from the JSON body, so it is a
  JavaScript value, not necessarily a number. The values modelled are the absent field,
  \<^verbatim>\<open>null\<close>, the booleans and the numbers; numbers are whole amounts (an \<open>int\<close>),
  strings and composite values are left out.
\<close>

datatype jsval = JUndefined | JNull | JBool bool | JNum int

text \<open>\<^verbatim>\<open>!amount\<close> is \<open>\<not> truthy amount\<close>.\<close>

fun truthy :: "jsval \<Rightarrow> bool" where
  "truthy JUndefined = False"
| "truthy JNull = False"
| "truthy (JBool b) = b"
| "truthy (JNum n) = (n \<noteq> 0)"

text \<open>The conversion the relational operators apply; \<open>None\<close> is \<^verbatim>\<open>NaN\<close>.\<close>

fun toNumber :: "jsval \<Rightarrow> int option" where
  "toNumber JUndefined = None"
| "toNumber JNull = Some 0"
| "toNumber (JBool b) = Some (if b then 1 else 0)"
| "toNumber (JNum n) = Some n"

text \<open>\<^verbatim>\<open>v <= n\<close> and \<^verbatim>\<open>v < n\<close> for a stored number \<open>n\<close>: false when \<open>v\<close> is \<^verbatim>\<open>NaN\<close>.\<close>

definition js_le :: "jsval \<Rightarrow> int \<Rightarrow> bool" where
  "js_le v n = (case toNumber v of None \<Rightarrow> False | Some m \<Rightarrow> m \<le> n)"

definition js_lt :: "jsval \<Rightarrow> int \<Rightarrow> bool" where
  "js_lt v n = (case toNumber v of None \<Rightarrow> False | Some m \<Rightarrow> m < n)"

text \<open>
  The \<^verbatim>\<open>:id\<close> route parameter is either a well-formed ObjectId (numbered here) or
  some other string.
\<close>

datatype param_id = InvalidId | ObjId nat

text \<open>
  A time field of the body is absent (or empty), or a text that \<^verbatim>\<open>new Date\<close> turns
  into an instant in milliseconds; \<open>DateText None\<close> is a text giving an invalid date, whose
  time value is \<^verbatim>\<open>NaN\<close>.
\<close>

datatype form_date = NoDate | DateText "int option"

fun present :: "form_date \<Rightarrow> bool" where
  "present NoDate = False"
| "present (DateText t) = True"

fun newDate :: "form_date \<Rightarrow> int option" where
  "newDate NoDate = None"
| "newDate (DateText t) = t"

text \<open>Comparisons of time values; each is false when a side is \<^verbatim>\<open>NaN\<close>.\<close>

fun date_lt :: "int option \<Rightarrow> int option \<Rightarrow> bool" where
  "date_lt (Some a) (Some b) = (a < b)"
| "date_lt _ _ = False"

fun date_ge :: "int option \<Rightarrow> int option \<Rightarrow> bool" where
  "date_ge (Some a) (Some b) = (a \<ge> b)"
| "date_ge _ _ = False"

section \<open>Errors\<close>

text \<open>
  \<open>ErrorHandler message statusCode\<close> is the controllers' own error class (the status is
  optional: one call site passes none). \<open>Exception message\<close> is any other error thrown
  by the store or the runtime.
\<close>

datatype error = ErrorHandler string "nat option" | Exception string

text \<open>
  The \<^verbatim>\<open>catch\<close> block shared by the transactional controllers: an \<open>ErrorHandler\<close> is
  passed on, anything else is wrapped with status 500 and its own message, or the
  fallback when the message is empty.
\<close>

fun catch_err :: "string \<Rightarrow> error \<Rightarrow> error" where
  "catch_err fallback (ErrorHandler m c) = ErrorHandler m c"
| "catch_err fallback (Exception m) =
     ErrorHandler (if m = [] then fallback else m) (Some 500)"

section \<open>The ledger store\<close>

record embedded_bid =
  userId :: nat
  userName :: string
  profileImage :: "string option"
  amount :: int

record image_ref =
  public_id :: string
  url :: string

record auction =
  a_id :: nat
  title :: string
  description :: string
  category :: string
  condition :: string
  startingBid :: int
  currentBid :: int
  startTime :: int
  endTime :: int
  image :: image_ref
  createdBy :: nat
  bids :: "embedded_bid list"
  highestBidder :: "nat option"
  commissionCalculated :: bool

text \<open>The standalone Bid document; \<open>bidder_*\<close> are the fields of its \<^verbatim>\<open>bidder\<close> object.\<close>

record bid =
  bid_amount :: int
  bidder_id :: nat
  bidder_userName :: string
  bidder_profileImage :: "string option"
  auctionItem :: nat

record user =
  u_id :: nat
  u_userName :: string
  u_profileImage :: "string option"
  moneySpent :: int
  auctionsWon :: int
  unpaidCommission :: int

text \<open>
  A collection is the list of its documents in insertion order, so that a query returns
  the first match.
\<close>

record store =
  auctions :: "auction list"
  bidDocs :: "bid list"
  users :: "user list"

definition findById :: "('a \<Rightarrow> nat) \<Rightarrow> nat \<Rightarrow> 'a list \<Rightarrow> 'a option" where
  "findById key i xs = find (\<lambda>x. key x = i) xs"

text \<open>Writing back one document: the first document matching \<open>P\<close> becomes \<open>f\<close> of it.\<close>

fun updateOne :: "('a \<Rightarrow> bool) \<Rightarrow> ('a \<Rightarrow> 'a) \<Rightarrow> 'a list \<Rightarrow> 'a list" where
  "updateOne P f [] = []"
| "updateOne P f (x # xs) = (if P x then f x # xs else x # updateOne P f xs)"

text \<open>\<^verbatim>\<open>doc.save({ session })\<close> of a fetched document: it replaces the stored one of the same id.\<close>

definition save_auction :: "auction \<Rightarrow> store \<Rightarrow> store" where
  "save_auction a s = s\<lparr>auctions := updateOne (\<lambda>x. a_id x = a_id a) (\<lambda>_. a) (auctions s)\<rparr>"

definition save_user :: "user \<Rightarrow> store \<Rightarrow> store" where
  "save_user u s = s\<lparr>users := updateOne (\<lambda>x. u_id x = u_id u) (\<lambda>_. u) (users s)\<rparr>"

section \<open>placeBid\<close>

text \<open>
  Modelled from the spec: the schemas are not part of the sources read here; the amount
  fields of a Bid and of an embedded entry, and \<open>currentBid\<close>, are numbers, so that a
  value written to them is stored as its number. A value with no number makes the save
  fail.
\<close>

fun castNumber :: "jsval \<Rightarrow> int option" where
  "castNumber (JNum n) = Some n"
| "castNumber (JBool b) = Some (if b then 1 else 0)"
| "castNumber JNull = None"
| "castNumber JUndefined = None"

text \<open>
  The body of \<^verbatim>\<open>session.withTransaction\<close> in \<^verbatim>\<open>placeBid\<close>, run on the store as
  the transaction sees it. \<open>Inl\<close> is a throw, which aborts the transaction; \<open>Inr\<close> is the
  store to commit.
\<close>

definition placeBid_txn :: "nat \<Rightarrow> nat \<Rightarrow> jsval \<Rightarrow> store \<Rightarrow> error + store" where
  "placeBid_txn uid i amt s =
    (case findById a_id i (auctions s) of
       None \<Rightarrow> Inl (ErrorHandler ''Auction Item not found.'' (Some 404))
     | Some auction \<Rightarrow>
        let existingBid =
              find (\<lambda>b. bidder_id b = uid \<and> auctionItem b = a_id auction) (bidDocs s);
            existingBidInAuction = find (\<lambda>b. userId b = uid) (bids auction)
        in
          if existingBid \<noteq> None \<and> existingBidInAuction \<noteq> None then
            (case castNumber amt of
               None \<Rightarrow> Inl (Exception ''Bid validation failed'')
             | Some n \<Rightarrow>
                let auction1 = auction\<lparr>bids :=
                      updateOne (\<lambda>b. userId b = uid) (\<lambda>b. b\<lparr>amount := n\<rparr>) (bids auction)\<rparr>;
                    s1 = s\<lparr>bidDocs :=
                      updateOne (\<lambda>b. bidder_id b = uid \<and> auctionItem b = a_id auction)
                        (\<lambda>b. b\<lparr>bid_amount := n\<rparr>) (bidDocs s)\<rparr>;
                    s2 = save_auction auction1 s1
                in Inr (save_auction (auction1\<lparr>currentBid := n\<rparr>) s2))
          else
            (case findById u_id uid (users s) of
               None \<Rightarrow> Inl (ErrorHandler ''User not found.'' (Some 500))
             | Some bidderDetail \<Rightarrow>
                (case castNumber amt of
                   None \<Rightarrow> Inl (Exception ''Bid validation failed'')
                 | Some n \<Rightarrow>
                    let newBid = \<lparr>bid_amount = n, bidder_id = u_id bidderDetail,
                          bidder_userName = u_userName bidderDetail,
                          bidder_profileImage = u_profileImage bidderDetail,
                          auctionItem = a_id auction\<rparr>;
                        s1 = s\<lparr>bidDocs := bidDocs s @ [newBid]\<rparr>;
                        auction1 = auction\<lparr>bids := bids auction @
                          [\<lparr>userId = uid, userName = u_userName bidderDetail,
                            profileImage = u_profileImage bidderDetail, amount = n\<rparr>]\<rparr>;
                        s2 = save_auction auction1 s1
                    in Inr (save_auction (auction1\<lparr>currentBid := n\<rparr>) s2))))"

text \<open>
  \<open>placeBid uid pid amt pre s\<close>: the request of user \<open>uid\<close> for auction \<open>pid\<close> with
  body amount \<open>amt\<close>. The first \<^verbatim>\<open>Auction.findById\<close> runs before the transaction is
  opened, on the store \<open>pre\<close> of that moment; the transaction runs on the store \<open>s\<close> of
  its own start, which is \<open>pre\<close> unless another request committed in between. The result
  is the response (the \<^verbatim>\<open>currentBid\<close> echoed back) or the error handed to
  \<^verbatim>\<open>next\<close>, with the store left behind.
\<close>

definition placeBid ::
  "nat \<Rightarrow> param_id \<Rightarrow> jsval \<Rightarrow> store \<Rightarrow> store \<Rightarrow> (error + jsval) \<times> store" where
  "placeBid uid pid amt pre s =
    (case pid of
       InvalidId \<Rightarrow> (Inl (Exception ''Cast to ObjectId failed''), s)
     | ObjId i \<Rightarrow>
        (case findById a_id i (auctions pre) of
           None \<Rightarrow> (Inl (ErrorHandler ''Auction Item not found.'' (Some 404)), s)
         | Some item \<Rightarrow>
            if \<not> truthy amt then
              (Inl (ErrorHandler ''Please place your bid.'' (Some 404)), s)
            else if js_le amt (currentBid item) then
              (Inl (ErrorHandler ''Bid amount must be greater than the current bid.''
                 (Some 404)), s)
            else if js_lt amt (startingBid item) then
              (Inl (ErrorHandler ''Bid amount must be greater than starting bid.''
                 (Some 404)), s)
            else
              (case placeBid_txn uid i amt s of
                 Inl e \<Rightarrow> (Inl (catch_err ''Failed to place bid.'' e), s)
               | Inr s' \<Rightarrow> (Inr amt, s'))))"

section \<open>republishItem\<close>

text \<open>
  The code subtracts Numbers, which round; the model subtracts integers. The two agree
  when the operands and the difference are whole numbers that a Number holds exactly.
\<close>

definition safe_int :: "int \<Rightarrow> bool" where
  "safe_int n = (- 9007199254740991 \<le> n \<and> n \<le> 9007199254740991)"

definition exact_sub :: "int \<Rightarrow> int \<Rightarrow> bool" where
  "exact_sub x y = (safe_int x \<and> safe_int y \<and> safe_int (x - y))"

text \<open>
  Step 2 of the transaction: when the auction has a \<open>highestBidder\<close>, that user is
  fetched and the two counters are decremented.
\<close>

definition rollback_highest :: "auction \<Rightarrow> store \<Rightarrow> error + store" where
  "rollback_highest auctionItem0 s =
    (case highestBidder auctionItem0 of
       None \<Rightarrow> Inr s
     | Some h \<Rightarrow>
        (case findById u_id h (users s) of
           None \<Rightarrow> Inl (ErrorHandler ''Highest bidder not found.'' (Some 500))
         | Some hb \<Rightarrow>
            Inr (save_user (hb\<lparr>moneySpent := moneySpent hb - currentBid auctionItem0,
                              auctionsWon := auctionsWon hb - 1\<rparr>) s)))"

text \<open>
  The body of the transaction of \<^verbatim>\<open>republishItem\<close>. \<open>now\<close> is the clock read
  inside the transaction. Modelled from the spec: \<open>startTime\<close> and \<open>endTime\<close> are time
  fields (the schema is not part of the sources read here), so saving the auction with
  an invalid date fails.
\<close>

definition republish_txn ::
  "nat \<Rightarrow> nat \<Rightarrow> int option \<Rightarrow> int option \<Rightarrow> int \<Rightarrow> store \<Rightarrow> error + store" where
  "republish_txn uid i newStart newEnd now s =
    (case findById a_id i (auctions s) of
       None \<Rightarrow> Inl (ErrorHandler ''Auction not found.'' (Some 404))
     | Some auctionItem0 \<Rightarrow>
        if endTime auctionItem0 > now then
          Inl (ErrorHandler ''Auction is already active, cannot republish'' (Some 400))
        else
          (case rollback_highest auctionItem0 s of
             Inl e \<Rightarrow> Inl e
           | Inr s1 \<Rightarrow>
              (case (newStart, newEnd) of
                 (Some ns, Some ne) \<Rightarrow>
                    let s2 = save_auction (auctionItem0\<lparr>startTime := ns, endTime := ne,
                               bids := [], commissionCalculated := False, currentBid := 0,
                               highestBidder := None\<rparr>) s1;
                        s3 = s2\<lparr>bidDocs :=
                               filter (\<lambda>b. auctionItem b \<noteq> a_id auctionItem0) (bidDocs s2)\<rparr>
                    in (case findById u_id uid (users s3) of
                          None \<Rightarrow> Inl (ErrorHandler ''Creator user not found.'' (Some 500))
                        | Some creator \<Rightarrow>
                            Inr (save_user (creator\<lparr>unpaidCommission := 0\<rparr>) s3))
               | _ \<Rightarrow> Inl (Exception ''Auction validation failed''))))"

text \<open>
  \<open>republishItem uid pid start end now0 now s\<close>: the request of user \<open>uid\<close> (the
  authenticated \<^verbatim>\<open>req.user\<close>) to republish auction \<open>pid\<close> with the body's
  \<^verbatim>\<open>startTime\<close> and \<^verbatim>\<open>endTime\<close>. \<open>now0\<close> is the clock read by the check of the
  new start time, \<open>now\<close> the clock read inside the transaction. On success the
  response carries the auction as read back after the commit.
\<close>

definition republishItem ::
  "nat \<Rightarrow> param_id \<Rightarrow> form_date \<Rightarrow> form_date \<Rightarrow> int \<Rightarrow> int \<Rightarrow> store
     \<Rightarrow> (error + auction option) \<times> store" where
  "republishItem uid pid start end now0 now s =
    (case pid of
       InvalidId \<Rightarrow> (Inl (ErrorHandler ''Invalid Id format.'' (Some 400)), s)
     | ObjId i \<Rightarrow>
        if \<not> present start \<or> \<not> present end then
          (Inl (ErrorHandler ''Starttime and Endtime for republish is mandatory.'' None), s)
        else
          let newStart = newDate start; newEnd = newDate end in
            if date_lt newStart (Some now0) then
              (Inl (ErrorHandler ''Auction starting time must be greater than present time''
                 (Some 400)), s)
            else if date_ge newStart newEnd then
              (Inl (ErrorHandler ''Auction starting time must be less than ending time.''
                 (Some 400)), s)
            else
              (case republish_txn uid i newStart newEnd now s of
                 Inl e \<Rightarrow> (Inl (catch_err ''Failed to republish auction.'' e), s)
               | Inr s' \<Rightarrow> (Inr (findById a_id i (auctions s')), s')))"

section \<open>addNewAuctionItem\<close>

record upload_file =
  mimetype :: string
  tempFilePath :: string

text \<open>
  A text field of the multipart body: absent, or its text; \<^verbatim>\<open>!field\<close> holds of the
  absent field and of the empty text.
\<close>

fun filled :: "string option \<Rightarrow> bool" where
  "filled None = False"
| "filled (Some t) = (t \<noteq> [])"

text \<open>
  The starting bid arrives as a text too; \<open>NumText t n\<close> is the text \<open>t\<close> with the
  number \<open>n\<close> it stands for, \<open>None\<close> when it stands for none.
\<close>

datatype form_num = NoNum | NumText string "int option"

fun filled_num :: "form_num \<Rightarrow> bool" where
  "filled_num NoNum = False"
| "filled_num (NumText t n) = (t \<noteq> [])"

record item_request =
  files :: "(string \<times> upload_file) list option"
  body_title :: "string option"
  body_description :: "string option"
  body_category :: "string option"
  body_condition :: "string option"
  body_startingBid :: form_num
  body_startTime :: form_date
  body_endTime :: form_date

text \<open>What \<^verbatim>\<open>cloudinary.uploader.upload\<close> does with the image: the answer of the service.\<close>

datatype upload_result =
  UploadThrows string | UploadNothing | UploadError | Uploaded string string

definition allowedFormats :: "string list" where
  "allowedFormats = [''image/png'', ''image/jpeg'', ''image/webp'']"

text \<open>
  The checks of the request that come first, in the order of the source; \<open>now0\<close> is the
  clock read by the check of the start time. \<open>None\<close>: the request passes them.
\<close>

definition check_item_request :: "item_request \<Rightarrow> int \<Rightarrow> error option" where
  "check_item_request req now0 =
    (case files req of
       None \<Rightarrow> Some (ErrorHandler ''Auction item image required.'' (Some 400))
     | Some fs \<Rightarrow>
        if fs = [] then Some (ErrorHandler ''Auction item image required.'' (Some 400))
        else
          (case map_of fs ''image'' of
             None \<Rightarrow> Some (Exception ''Cannot read properties of undefined'')
           | Some img \<Rightarrow>
              if mimetype img \<notin> set allowedFormats then
                Some (ErrorHandler ''File format not supported.'' (Some 400))
              else if \<not> filled (body_title req) \<or> \<not> filled (body_description req) \<or>
                      \<not> filled (body_category req) \<or> \<not> filled (body_condition req) \<or>
                      \<not> filled_num (body_startingBid req) \<or>
                      \<not> present (body_startTime req) \<or> \<not> present (body_endTime req) then
                Some (ErrorHandler ''Please provide all details.'' (Some 400))
              else if date_lt (newDate (body_startTime req)) (Some now0) then
                Some (ErrorHandler
                  ''Auction starting time must be greater than present time.'' (Some 400))
              else if date_ge (newDate (body_startTime req)) (newDate (body_endTime req)) then
                Some (ErrorHandler
                  ''Auction starting time must be less than ending time.'' (Some 400))
              else None))"

text \<open>
  \<^verbatim>\<open>Auction.find({ createdBy: req.user._id, endTime: { $gt: Date.now() } })\<close>.
\<close>

definition alreadyOneAuctionActive :: "nat \<Rightarrow> int \<Rightarrow> store \<Rightarrow> auction list" where
  "alreadyOneAuctionActive uid now s =
     filter (\<lambda>a. createdBy a = uid \<and> endTime a > now) (auctions s)"

text \<open>The id the store gives a new document: one that no document of the collection has.\<close>

definition fresh_id :: "auction list \<Rightarrow> nat" where
  "fresh_id xs = Suc (fold max (map a_id xs) 0)"

text \<open>
  \<^verbatim>\<open>Auction.create\<close>. Modelled from the spec: the schema is not part of the sources
  read here; a new auction starts with \<open>currentBid = 0\<close>, no bid, no highest bidder and
  \<open>commissionCalculated = false\<close>, and it is stored only if its texts are given and its
  starting bid and times have values of their types.
\<close>

definition create_auction ::
  "nat \<Rightarrow> item_request \<Rightarrow> string \<Rightarrow> string \<Rightarrow> store \<Rightarrow> error + auction \<times> store" where
  "create_auction uid req pid secure_url s =
    (case (body_title req, body_description req, body_category req, body_condition req) of
       (Some ti, Some de, Some ca, Some co) \<Rightarrow>
         (case (body_startingBid req, newDate (body_startTime req),
                newDate (body_endTime req)) of
            (NumText t (Some sb), Some st, Some en) \<Rightarrow>
               let a = \<lparr>a_id = fresh_id (auctions s), title = ti, description = de,
                         category = ca, condition = co, startingBid = sb, currentBid = 0,
                         startTime = st, endTime = en,
                         image = \<lparr>public_id = pid, url = secure_url\<rparr>, createdBy = uid,
                         bids = [], highestBidder = None, commissionCalculated = False\<rparr>
               in Inr (a, s\<lparr>auctions := auctions s @ [a]\<rparr>)
          | _ \<Rightarrow> Inl (Exception ''Auction validation failed''))
     | _ \<Rightarrow> Inl (Exception ''Auction validation failed''))"

text \<open>
  \<open>addNewAuctionItem uid req up now0 now s\<close>: the request \<open>req\<close> of user \<open>uid\<close>;
  \<open>up\<close> is the answer of the image service, should it be called; \<open>now0\<close> and \<open>now\<close>
  are the clock as read by the check of the start time and by the query for active
  auctions.
\<close>

definition addNewAuctionItem ::
  "nat \<Rightarrow> item_request \<Rightarrow> upload_result \<Rightarrow> int \<Rightarrow> int \<Rightarrow> store
     \<Rightarrow> (error + auction) \<times> store" where
  "addNewAuctionItem uid req up now0 now s =
    (case check_item_request req now0 of
       Some e \<Rightarrow> (Inl e, s)
     | None \<Rightarrow>
        if length (alreadyOneAuctionActive uid now s) > 0 then
          (Inl (ErrorHandler ''You already have one active auction.'' (Some 400)), s)
        else
          (case up of
             UploadThrows m \<Rightarrow>
               (Inl (catch_err ''Failed to created auction.'' (Exception m)), s)
           | UploadNothing \<Rightarrow>
               (Inl (catch_err ''Failed to created auction.''
                  (Exception ''Cannot read properties of undefined'')), s)
           | UploadError \<Rightarrow>
               (Inl (ErrorHandler ''Failed to upload auction image to cloudinary.''
                  (Some 500)), s)
           | Uploaded pid secure_url \<Rightarrow>
               (case create_auction uid req pid secure_url s of
                  Inl e \<Rightarrow> (Inl (catch_err ''Failed to created auction.'' e), s)
                | Inr (a, s') \<Rightarrow> (Inr a, s'))))"

section \<open>Synchronized bid records\<close>

text \<open>The bidders of the standalone Bid documents of auction \<open>i\<close>, in collection order.\<close>

definition doc_bidders :: "nat \<Rightarrow> bid list \<Rightarrow> nat list" where
  "doc_bidders i ds = map bidder_id (filter (\<lambda>b. auctionItem b = i) ds)"

text \<open>
  Auction \<open>a\<close> and the Bid collection are synchronized when no bidder has two embedded
  entries, no bidder has two Bid documents for \<open>a\<close>, and the bidders with an entry are
  those with a document.
\<close>

definition synced :: "auction \<Rightarrow> bid list \<Rightarrow> bool" where
  "synced a ds =
    (distinct (map userId (bids a)) \<and> distinct (doc_bidders (a_id a) ds) \<and>
     set (map userId (bids a)) = set (doc_bidders (a_id a) ds))"

text \<open>The same of the auction with id \<open>i\<close> in a store, if there is one.\<close>

definition synced_at :: "nat \<Rightarrow> store \<Rightarrow> bool" where
  "synced_at i s =
    (case findById a_id i (auctions s) of None \<Rightarrow> True | Some a \<Rightarrow> synced a (bidDocs s))"

section \<open>The settlement of the winner\<close>

text \<open>
  Modelled from the spec: the settlement engine is not part of the sources read here.
  Its step 3 adds the auction's \<open>currentBid\<close> to the winner's \<open>moneySpent\<close> and 1 to
  the winner's \<open>auctionsWon\<close>.
\<close>

definition settle_winner :: "auction \<Rightarrow> user \<Rightarrow> user" where
  "settle_winner a w =
     w\<lparr>moneySpent := moneySpent w + currentBid a, auctionsWon := auctionsWon w + 1\<rparr>"

section \<open>Example data\<close>

text \<open>
  A seller (user 1) and two bidders (users 2 and 3); auction 10 of the seller, open from
  instant 1000 to instant 2000, starting bid 100, no bid yet.
\<close>

definition seller :: user where
  "seller = \<lparr>u_id = 1, u_userName = ''seller'', u_profileImage = None,
     moneySpent = 0, auctionsWon = 0, unpaidCommission = 50\<rparr>"

definition alice :: user where
  "alice = \<lparr>u_id = 2, u_userName = ''alice'', u_profileImage = None,
     moneySpent = 0, auctionsWon = 0, unpaidCommission = 0\<rparr>"

definition bob :: user where
  "bob = \<lparr>u_id = 3, u_userName = ''bob'', u_profileImage = Some ''bob.png'',
     moneySpent = 300, auctionsWon = 2, unpaidCommission = 30\<rparr>"

definition lot :: auction where
  "lot = \<lparr>a_id = 10, title = ''Lamp'', description = ''Brass lamp'', category = ''Home'',
     condition = ''Used'', startingBid = 100, currentBid = 0, startTime = 1000,
     endTime = 2000, image = \<lparr>public_id = ''p1'', url = ''u1''\<rparr>, createdBy = 1,
     bids = [], highestBidder = None, commissionCalculated = False\<rparr>"

definition shop :: store where
  "shop = \<lparr>auctions = [lot], bidDocs = [], users = [seller, alice, bob]\<rparr>"

text \<open>Alice's bid of 150 on the lot, as an embedded entry and as a Bid document.\<close>

definition alice_entry :: embedded_bid where
  "alice_entry = \<lparr>userId = 2, userName = ''alice'', profileImage = None, amount = 150\<rparr>"

definition alice_doc :: bid where
  "alice_doc = \<lparr>bid_amount = 150, bidder_id = 2, bidder_userName = ''alice'',
     bidder_profileImage = None, auctionItem = 10\<rparr>"

definition lot_bid :: auction where
  "lot_bid = lot\<lparr>currentBid := 150, bids := [alice_entry]\<rparr>"

text \<open>The store after Alice's bid: both records are there.\<close>

definition shop_bid :: store where
  "shop_bid = \<lparr>auctions = [lot_bid], bidDocs = [alice_doc], users = [seller, alice, bob]\<rparr>"

text \<open>Two stores out of step: only the embedded entry, and only the Bid document.\<close>

definition shop_entry_only :: store where
  "shop_entry_only = \<lparr>auctions = [lot_bid], bidDocs = [], users = [seller, alice, bob]\<rparr>"

definition shop_doc_only :: store where
  "shop_doc_only = \<lparr>auctions = [lot\<lparr>currentBid := 150\<rparr>], bidDocs = [alice_doc],
     users = [seller, alice, bob]\<rparr>"

text \<open>The lot after its end, settled with Bob (user 3) as the winner at 200.\<close>

definition bob_entry :: embedded_bid where
  "bob_entry = \<lparr>userId = 3, userName = ''bob'', profileImage = Some ''bob.png'', amount = 200\<rparr>"

definition bob_doc :: bid where
  "bob_doc = \<lparr>bid_amount = 200, bidder_id = 3, bidder_userName = ''bob'',
     bidder_profileImage = Some ''bob.png'', auctionItem = 10\<rparr>"

definition lot_sold :: auction where
  "lot_sold = lot\<lparr>currentBid := 200, bids := [alice_entry, bob_entry],
     highestBidder := Some 3, commissionCalculated := True\<rparr>"

definition shop_sold :: store where
  "shop_sold = \<lparr>auctions = [lot_sold], bidDocs = [alice_doc, bob_doc],
     users = [seller, alice, bob]\<rparr>"

text \<open>
  Carol (user 4), another seller, who owes a commission of 70; the store of the settled
  lot with Carol among the users.
\<close>

definition carol :: user where
  "carol = \<lparr>u_id = 4, u_userName = ''carol'', u_profileImage = None,
     moneySpent = 0, auctionsWon = 0, unpaidCommission = 70\<rparr>"

definition shop_sold_carol :: store where
  "shop_sold_carol = \<lparr>auctions = [lot_sold], bidDocs = [alice_doc, bob_doc],
     users = [seller, alice, bob, carol]\<rparr>"

text \<open>The open lot after Bob's bid of 200 has been committed.\<close>

definition shop_after_bob :: store where
  "shop_after_bob = snd (placeBid 3 (ObjId 10) (JNum 200) shop shop)"

text \<open>A complete request for a new auction, open from instant 6000 to instant 7000.\<close>

definition lamp_request :: item_request where
  "lamp_request = \<lparr>files = Some [(''image'', \<lparr>mimetype = ''image/png'', tempFilePath = ''/tmp/x''\<rparr>)],
     body_title = Some ''Vase'', body_description = Some ''Glass vase'',
     body_category = Some ''Home'', body_condition = Some ''New'',
     body_startingBid = NumText ''40'' (Some 40),
     body_startTime = DateText (Some 6000), body_endTime = DateText (Some 7000)\<rparr>"

text \<open>The auction that request creates for Carol, with the uploaded image.\<close>

definition vase :: auction where
  "vase = \<lparr>a_id = 11, title = ''Vase'', description = ''Glass vase'', category = ''Home'',
     condition = ''New'', startingBid = 40, currentBid = 0, startTime = 6000,
     endTime = 7000, image = \<lparr>public_id = ''p2'', url = ''u2''\<rparr>, createdBy = 4,
     bids = [], highestBidder = None, commissionCalculated = False\<rparr>"

text \<open>
  Bob as he was before the lot was settled, and the store of the settled lot after
  Alice's bid of 250, sent when the lot had ended.
\<close>

definition bob_before :: user where
  "bob_before = bob\<lparr>moneySpent := 100, auctionsWon := 1\<rparr>"

definition shop_late_bid :: store where
  "shop_late_bid = snd (placeBid 2 (ObjId 10) (JNum 250) shop_sold shop_sold)"

section \<open>Facts about the store operations\<close>

lemma findById_SomeD: "findById key i xs = Some a \<Longrightarrow> key a = i \<and> a \<in> set xs"
  unfolding findById_def by (induction xs) (auto split: if_splits)

lemma find_None_set: "(find P xs = None) = (\<forall>x\<in>set xs. \<not> P x)"
  by (induction xs) auto

lemma length_updateOne: "length (updateOne P f xs) = length xs"
  by (induction xs) auto

lemma updateOne_twice:
  "P a \<Longrightarrow> updateOne P (\<lambda>_. b) (updateOne P (\<lambda>_. a) xs) = updateOne P (\<lambda>_. b) xs"
  by (induction xs) auto

lemma findById_updateOne:
  "key a = k \<Longrightarrow>
   findById key j (updateOne (\<lambda>x. key x = k) (\<lambda>_. a) xs) =
     (if j = k then (case findById key k xs of None \<Rightarrow> None | Some _ \<Rightarrow> Some a)
      else findById key j xs)"
  unfolding findById_def by (induction xs) auto

lemma userId_updateOne:
  "map userId (updateOne P (\<lambda>b. b\<lparr>amount := n\<rparr>) xs) = map userId xs"
  by (induction xs) auto

lemma doc_bidders_updateOne:
  "doc_bidders j (updateOne P (\<lambda>b. b\<lparr>bid_amount := n\<rparr>) ds) = doc_bidders j ds"
  unfolding doc_bidders_def by (induction ds) auto

lemma doc_bidders_append:
  "doc_bidders j (ds @ [d]) =
     doc_bidders j ds @ (if auctionItem d = j then [bidder_id d] else [])"
  unfolding doc_bidders_def by simp

lemma entry_amount_updateOne:
  "distinct (map userId xs) \<Longrightarrow> u \<in> set (map userId xs) \<Longrightarrow>
   map amount (filter (\<lambda>b. userId b = u)
     (updateOne (\<lambda>b. userId b = u) (\<lambda>b. b\<lparr>amount := n\<rparr>) xs)) = [n]"
proof (induction xs)
  case Nil
  then show ?case by simp
next
  case (Cons x xs)
  show ?case
  proof (cases "userId x = u")
    case True
    with Cons.prems have "u \<notin> set (map userId xs)" by auto
    then have "filter (\<lambda>b. userId b = u) xs = []" by (auto simp: filter_empty_conv)
    with True show ?thesis by simp
  next
    case False
    with Cons show ?thesis by auto
  qed
qed

lemma doc_amount_updateOne:
  "distinct (doc_bidders i ds) \<Longrightarrow> u \<in> set (doc_bidders i ds) \<Longrightarrow>
   map bid_amount (filter (\<lambda>b. bidder_id b = u \<and> auctionItem b = i)
     (updateOne (\<lambda>b. bidder_id b = u \<and> auctionItem b = i)
        (\<lambda>b. b\<lparr>bid_amount := n\<rparr>) ds)) = [n]"
proof (induction ds)
  case Nil
  then show ?case by (simp add: doc_bidders_def)
next
  case (Cons d ds)
  show ?case
  proof (cases "bidder_id d = u \<and> auctionItem d = i")
    case True
    with Cons.prems have "u \<notin> set (doc_bidders i ds)" by (auto simp: doc_bidders_def)
    then have "filter (\<lambda>b. bidder_id b = u \<and> auctionItem b = i) ds = []"
      by (auto simp: filter_empty_conv doc_bidders_def)
    with True show ?thesis by simp
  next
    case False
    with Cons show ?thesis by (auto simp: doc_bidders_def split: if_splits)
  qed
qed

section \<open>placeBid: the checks before the transaction\<close>

text \<open>The errors the transaction of \<open>placeBid\<close> can throw.\<close>

lemma placeBid_txn_errors:
  "placeBid_txn uid i amt s = Inl e \<Longrightarrow>
     e = ErrorHandler ''Auction Item not found.'' (Some 404) \<or>
     e = ErrorHandler ''User not found.'' (Some 500) \<or>
     e = Exception ''Bid validation failed''"
  by (auto simp: placeBid_txn_def Let_def split: option.splits if_splits)

text \<open>
  C4, as amended. The check of the amount is a check of truthiness, not of being a
  number: for an auction that exists, \<open>placeBid\<close> answers
  \<^verbatim>\<open>Please place your bid.\<close> (404), leaving the store as it is, exactly when the
  amount is falsy (absent, \<^verbatim>\<open>null\<close>, \<^verbatim>\<open>false\<close> or the number 0). No other
  check comes before it, and no truthy amount is rejected by it.
\<close>

theorem placeBid_amount_validation:
  assumes "findById a_id i (auctions pre) = Some a"
  shows "(placeBid uid (ObjId i) amt pre s =
            (Inl (ErrorHandler ''Please place your bid.'' (Some 404)), s)) = (\<not> truthy amt)"
  using assms
  by (auto simp: placeBid_def split: sum.splits dest!: placeBid_txn_errors)

text \<open>C4, an instance: the amount 0 on the open lot.\<close>

theorem placeBid_amount_validation_witness:
  "findById a_id 10 (auctions shop) = Some lot \<and> \<not> truthy (JNum 0) \<and>
   placeBid 2 (ObjId 10) (JNum 0) shop shop =
     (Inl (ErrorHandler ''Please place your bid.'' (Some 404)), shop)"
proof -
  have h: "findById a_id 10 (auctions shop) = Some lot"
    by (simp add: findById_def shop_def lot_def)
  show ?thesis using h placeBid_amount_validation [OF h, of 2 "JNum 0" shop] by simp
qed

text \<open>
  C4 as stated fails both ways: the amount 0 is present and numeric and is rejected by
  the check, and the amount \<^verbatim>\<open>true\<close> is not a number and passes it, to be rejected
  by a business rule (it counts as 1, below the starting bid of 100).
\<close>

theorem placeBid_amount_validation_counterexample:
  "placeBid 2 (ObjId 10) (JNum 0) shop shop =
     (Inl (ErrorHandler ''Please place your bid.'' (Some 404)), shop) \<and>
   placeBid 2 (ObjId 10) (JBool True) shop shop =
     (Inl (ErrorHandler ''Bid amount must be greater than starting bid.'' (Some 404)), shop)"
  by (simp add: placeBid_def findById_def js_le_def js_lt_def shop_def lot_def)

text \<open>
  C5, as amended. A bid whose amount is not above the \<open>currentBid\<close> that \<open>placeBid\<close>
  reads before its transaction always fails and leaves the store unchanged; the error is
  \<^verbatim>\<open>Bid amount must be greater than the current bid.\<close> when the amount is truthy,
  and \<^verbatim>\<open>Please place your bid.\<close> when it is not (the amount 0).
\<close>

theorem placeBid_not_above_current_fails:
  assumes "findById a_id i (auctions pre) = Some a" and "js_le amt (currentBid a)"
  shows "placeBid uid (ObjId i) amt pre s =
           (Inl (ErrorHandler
              (if truthy amt then ''Bid amount must be greater than the current bid.''
               else ''Please place your bid.'') (Some 404)), s)"
  using assms by (simp add: placeBid_def)

text \<open>C5, an instance: Bob bids 140 when the current bid is 150.\<close>

theorem placeBid_not_above_current_fails_witness:
  "findById a_id 10 (auctions shop_bid) = Some lot_bid \<and>
   js_le (JNum 140) (currentBid lot_bid) \<and>
   placeBid 3 (ObjId 10) (JNum 140) shop_bid shop_bid =
     (Inl (ErrorHandler ''Bid amount must be greater than the current bid.'' (Some 404)),
      shop_bid)"
proof -
  have h: "findById a_id 10 (auctions shop_bid) = Some lot_bid"
    by (simp add: findById_def shop_bid_def lot_bid_def lot_def)
  have l: "js_le (JNum 140) (currentBid lot_bid)"
    by (simp add: js_le_def lot_bid_def lot_def)
  show ?thesis using h l placeBid_not_above_current_fails [OF h l, of 3 shop_bid] by simp
qed

text \<open>
  C5 as stated fails at the amount 0, which is not above the current bid of 150: the
  error is the one of the missing amount, not the rejection of a low bid.
\<close>

theorem placeBid_zero_on_bid_lot_counterexample:
  "js_le (JNum 0) (currentBid lot_bid) \<and>
   placeBid 3 (ObjId 10) (JNum 0) shop_bid shop_bid =
     (Inl (ErrorHandler ''Please place your bid.'' (Some 404)), shop_bid)"
  by (simp add: placeBid_def findById_def js_le_def shop_bid_def lot_bid_def lot_def)

text \<open>
  C9, as amended. Every bid below the \<open>startingBid\<close> fails and leaves the store
  unchanged. The error is \<^verbatim>\<open>Bid amount must be greater than starting bid.\<close>
  exactly when the amount, having passed the two checks before (it is truthy and above
  the \<open>currentBid\<close> read before the transaction), is strictly below the
  \<open>startingBid\<close>; an amount equal to the \<open>startingBid\<close> is not rejected by this check.
\<close>

theorem placeBid_starting_bid_check:
  assumes "findById a_id i (auctions pre) = Some a"
  shows "(js_lt amt (startingBid a) \<longrightarrow>
            (\<exists>e. placeBid uid (ObjId i) amt pre s = (Inl e, s))) \<and>
         (truthy amt \<and> \<not> js_le amt (currentBid a) \<longrightarrow>
            (placeBid uid (ObjId i) amt pre s =
               (Inl (ErrorHandler ''Bid amount must be greater than starting bid.''
                  (Some 404)), s))
            = js_lt amt (startingBid a))"
  using assms
  by (auto simp: placeBid_def split: sum.splits dest!: placeBid_txn_errors)

text \<open>C9, two instances on the open lot: 99 is rejected by the check, 100 is not.\<close>

theorem placeBid_starting_bid_check_witness:
  "findById a_id 10 (auctions shop) = Some lot \<and> js_lt (JNum 99) (startingBid lot) \<and>
   truthy (JNum 99) \<and> \<not> js_le (JNum 99) (currentBid lot) \<and>
   placeBid 2 (ObjId 10) (JNum 99) shop shop =
     (Inl (ErrorHandler ''Bid amount must be greater than starting bid.'' (Some 404)), shop) \<and>
   \<not> js_lt (JNum 100) (startingBid lot) \<and>
   placeBid 2 (ObjId 10) (JNum 100) shop shop \<noteq>
     (Inl (ErrorHandler ''Bid amount must be greater than starting bid.'' (Some 404)), shop)"
proof -
  have h: "findById a_id 10 (auctions shop) = Some lot"
    by (simp add: findById_def shop_def lot_def)
  have l: "js_lt (JNum 99) (startingBid lot)" "\<not> js_le (JNum 99) (currentBid lot)"
    "\<not> js_lt (JNum 100) (startingBid lot)" "\<not> js_le (JNum 100) (currentBid lot)"
    by (simp_all add: js_lt_def js_le_def lot_def)
  show ?thesis
    using h l placeBid_starting_bid_check [OF h, of "JNum 99" 2 shop]
      placeBid_starting_bid_check [OF h, of "JNum 100" 2 shop]
    by simp
qed

text \<open>
  C9 as stated fails where an earlier check answers first: 50 is below the starting bid
  of 100 and is rejected as not above the current bid of 150, and 0 is rejected as a
  missing amount.
\<close>

theorem placeBid_below_start_counterexample:
  "js_lt (JNum 50) (startingBid lot_bid) \<and>
   placeBid 3 (ObjId 10) (JNum 50) shop_bid shop_bid =
     (Inl (ErrorHandler ''Bid amount must be greater than the current bid.'' (Some 404)),
      shop_bid) \<and>
   js_lt (JNum 0) (startingBid lot) \<and>
   placeBid 3 (ObjId 10) (JNum 0) shop shop =
     (Inl (ErrorHandler ''Please place your bid.'' (Some 404)), shop)"
  by (simp add: placeBid_def findById_def js_le_def js_lt_def shop_bid_def shop_def
      lot_bid_def lot_def)

section \<open>placeBid: the transaction\<close>

text \<open>The store the transaction commits, in its two branches.\<close>

lemma placeBid_txn_update:
  assumes "findById a_id i (auctions s) = Some a" and "castNumber amt = Some n"
    and "find (\<lambda>b. bidder_id b = uid \<and> auctionItem b = i) (bidDocs s) \<noteq> None"
    and "find (\<lambda>b. userId b = uid) (bids a) \<noteq> None"
  shows "placeBid_txn uid i amt s =
    Inr (s\<lparr>auctions := updateOne (\<lambda>x. a_id x = i)
              (\<lambda>_. a\<lparr>bids := updateOne (\<lambda>b. userId b = uid) (\<lambda>b. b\<lparr>amount := n\<rparr>) (bids a),
                      currentBid := n\<rparr>) (auctions s),
            bidDocs := updateOne (\<lambda>b. bidder_id b = uid \<and> auctionItem b = i)
              (\<lambda>b. b\<lparr>bid_amount := n\<rparr>) (bidDocs s)\<rparr>)"
proof -
  from assms(1) have i: "a_id a = i" by (simp add: findById_SomeD)
  show ?thesis
    using assms i by (simp add: placeBid_txn_def Let_def save_auction_def updateOne_twice)
qed

lemma placeBid_txn_insert:
  assumes "findById a_id i (auctions s) = Some a" and "castNumber amt = Some n"
    and "find (\<lambda>b. bidder_id b = uid \<and> auctionItem b = i) (bidDocs s) = None \<or>
         find (\<lambda>b. userId b = uid) (bids a) = None"
    and "findById u_id uid (users s) = Some u"
  shows "placeBid_txn uid i amt s =
    Inr (s\<lparr>auctions := updateOne (\<lambda>x. a_id x = i)
              (\<lambda>_. a\<lparr>bids := bids a @ [\<lparr>userId = uid, userName = u_userName u,
                        profileImage = u_profileImage u, amount = n\<rparr>],
                      currentBid := n\<rparr>) (auctions s),
            bidDocs := bidDocs s @ [\<lparr>bid_amount = n, bidder_id = uid,
                        bidder_userName = u_userName u,
                        bidder_profileImage = u_profileImage u, auctionItem = i\<rparr>]\<rparr>)"
proof -
  from assms(1) have i: "a_id a = i" by (simp add: findById_SomeD)
  from assms(4) have u: "u_id u = uid" by (simp add: findById_SomeD)
  show ?thesis
    using assms i u by (auto simp: placeBid_txn_def Let_def save_auction_def updateOne_twice)
qed


lemma placeBid_txn_cases:
  assumes "placeBid_txn uid i amt s = Inr s'"
  obtains a n where "findById a_id i (auctions s) = Some a" "castNumber amt = Some n"
      "find (\<lambda>b. bidder_id b = uid \<and> auctionItem b = i) (bidDocs s) \<noteq> None"
      "find (\<lambda>b. userId b = uid) (bids a) \<noteq> None"
  | a n u where "findById a_id i (auctions s) = Some a" "castNumber amt = Some n"
      "find (\<lambda>b. bidder_id b = uid \<and> auctionItem b = i) (bidDocs s) = None \<or>
       find (\<lambda>b. userId b = uid) (bids a) = None"
      "findById u_id uid (users s) = Some u"
proof -
  from assms obtain a where a: "findById a_id i (auctions s) = Some a"
    by (auto simp: placeBid_txn_def split: option.splits)
  then have i: "a_id a = i" by (simp add: findById_SomeD)
  from assms a i obtain n where n: "castNumber amt = Some n"
    by (auto simp: placeBid_txn_def Let_def split: option.splits if_splits)
  show ?thesis
  proof (cases "find (\<lambda>b. bidder_id b = uid \<and> auctionItem b = i) (bidDocs s) \<noteq> None \<and>
                find (\<lambda>b. userId b = uid) (bids a) \<noteq> None")
    case True
    then show ?thesis using that(1) [OF a n] by simp
  next
    case False
    with assms a i obtain u where u: "findById u_id uid (users s) = Some u"
      by (auto simp: placeBid_txn_def Let_def split: option.splits if_splits)
    from False have m: "find (\<lambda>b. bidder_id b = uid \<and> auctionItem b = i) (bidDocs s) = None \<or>
        find (\<lambda>b. userId b = uid) (bids a) = None" by simp
    show ?thesis by (rule that(2) [OF a n m u])
  qed
qed

lemma entry_exists: "(find (\<lambda>b. userId b = u) xs \<noteq> None) = (u \<in> set (map userId xs))"
  by (auto simp: find_None_set)

lemma doc_exists:
  "(find (\<lambda>b. bidder_id b = u \<and> auctionItem b = i) ds \<noteq> None) = (u \<in> set (doc_bidders i ds))"
  by (auto simp: find_None_set doc_bidders_def)

lemma synced_at_other:
  assumes "findById a_id j (auctions s') = findById a_id j (auctions s)"
    and "doc_bidders j (bidDocs s') = doc_bidders j (bidDocs s)"
  shows "synced_at j s' = synced_at j s"
proof (cases "findById a_id j (auctions s)")
  case None
  with assms show ?thesis by (simp add: synced_at_def)
next
  case (Some aj)
  then have "a_id aj = j" by (simp add: findById_SomeD)
  with Some assms show ?thesis by (simp add: synced_at_def synced_def)
qed

text \<open>The transaction keeps every auction synchronized with the Bid collection.\<close>

lemma placeBid_txn_synced:
  assumes "synced_at j s" and "placeBid_txn uid i amt s = Inr s'"
  shows "synced_at j s'"
  using assms(2)
proof (cases rule: placeBid_txn_cases)
  case (1 a n)
  from 1(1) have i: "a_id a = i" by (simp add: findById_SomeD)
  note s' = assms(2) [unfolded placeBid_txn_update [OF 1]]
  show ?thesis
  proof (cases "j = i")
    case True
    with assms(1) 1(1) have "synced a (bidDocs s)" by (simp add: synced_at_def)
    with s' True 1(1) i show ?thesis
      by (auto simp: synced_at_def synced_def findById_updateOne userId_updateOne
          doc_bidders_updateOne)
  next
    case False
    have f: "findById a_id j (auctions s') = findById a_id j (auctions s)"
      using s' i False by (auto simp: findById_updateOne)
    have d: "doc_bidders j (bidDocs s') = doc_bidders j (bidDocs s)"
      using s' by (auto simp: doc_bidders_updateOne)
    show ?thesis using synced_at_other [OF f d] assms(1) by simp
  qed
next
  case (2 a n u)
  from 2(1) have i: "a_id a = i" by (simp add: findById_SomeD)
  note s' = assms(2) [unfolded placeBid_txn_insert [OF 2]]
  show ?thesis
  proof (cases "j = i")
    case True
    with assms(1) 2(1) have sy: "synced a (bidDocs s)" by (simp add: synced_at_def)
    with 2(3) have "uid \<notin> set (map userId (bids a))" "uid \<notin> set (doc_bidders i (bidDocs s))"
      using entry_exists [of uid "bids a"] doc_exists [of uid i "bidDocs s"] i
      by (auto simp: synced_def)
    with sy s' True 2(1) i show ?thesis
      by (auto simp: synced_at_def synced_def findById_updateOne doc_bidders_append)
  next
    case False
    have f: "findById a_id j (auctions s') = findById a_id j (auctions s)"
      using s' i False by (auto simp: findById_updateOne)
    have d: "doc_bidders j (bidDocs s') = doc_bidders j (bidDocs s)"
      using s' False by (auto simp: doc_bidders_append)
    show ?thesis using synced_at_other [OF f d] assms(1) by simp
  qed
qed


lemma placeBid_outcome:
  assumes "placeBid uid pid amt pre s = (r, s')"
  shows "(\<exists>e. r = Inl e \<and> s' = s) \<or>
         (\<exists>i. pid = ObjId i \<and> r = Inr amt \<and> placeBid_txn uid i amt s = Inr s')"
  using assms
  by (auto simp: placeBid_def split: param_id.splits option.splits if_splits sum.splits)

lemma placeBid_txn_one_record:
  assumes sy: "synced_at i s" and t: "placeBid_txn uid i amt s = Inr s'"
    and a: "findById a_id i (auctions s) = Some a"
  shows "\<exists>a' n. findById a_id i (auctions s') = Some a' \<and> castNumber amt = Some n \<and>
           map amount (filter (\<lambda>b. userId b = uid) (bids a')) = [n] \<and>
           map bid_amount (filter (\<lambda>b. bidder_id b = uid \<and> auctionItem b = i) (bidDocs s')) = [n] \<and>
           (uid \<in> set (map userId (bids a)) \<longrightarrow>
              length (bids a') = length (bids a) \<and> length (bidDocs s') = length (bidDocs s))"
  using t
proof (cases rule: placeBid_txn_cases)
  case (1 a0 n)
  with a have [simp]: "a0 = a" by simp
  from a have i: "a_id a = i" by (simp add: findById_SomeD)
  from sy a have syn: "synced a (bidDocs s)" by (simp add: synced_at_def)
  note s' = t [unfolded placeBid_txn_update [OF 1]]
  have e: "uid \<in> set (map userId (bids a))"
    using 1(4) entry_exists [of uid "bids a"] by simp
  have d: "uid \<in> set (doc_bidders i (bidDocs s))"
    using 1(3) doc_exists [of uid i "bidDocs s"] by simp
  from syn i have di: "distinct (map userId (bids a))" "distinct (doc_bidders i (bidDocs s))"
    by (simp_all add: synced_def)
  let ?a' = "a\<lparr>bids := updateOne (\<lambda>b. userId b = uid) (\<lambda>b. b\<lparr>amount := n\<rparr>) (bids a),
               currentBid := n\<rparr>"
  have f1: "findById a_id i (auctions s') = Some ?a'"
    using s' a i by (auto simp: findById_updateOne)
  have f2: "map amount (filter (\<lambda>b. userId b = uid) (bids ?a')) = [n]"
    using entry_amount_updateOne [OF di(1) e] by simp
  have f3: "map bid_amount
      (filter (\<lambda>b. bidder_id b = uid \<and> auctionItem b = i) (bidDocs s')) = [n]"
    using doc_amount_updateOne [OF di(2) d] s' by auto
  have f4: "length (bids ?a') = length (bids a)" "length (bidDocs s') = length (bidDocs s)"
    using s' by (auto simp: length_updateOne)
  show ?thesis
    apply (rule exI [of _ ?a'])
    apply (rule exI [of _ n])
    using f1 f2 f3 f4 1(2) by simp
next
  case (2 a0 n u)
  with a have [simp]: "a0 = a" by simp
  from a have i: "a_id a = i" by (simp add: findById_SomeD)
  from sy a have syn: "synced a (bidDocs s)" by (simp add: synced_at_def)
  note s' = t [unfolded placeBid_txn_insert [OF 2]]
  from syn 2(3) i have ne: "uid \<notin> set (map userId (bids a))"
      "uid \<notin> set (doc_bidders i (bidDocs s))"
    using entry_exists [of uid "bids a"] doc_exists [of uid i "bidDocs s"]
    by (auto simp: synced_def)
  from ne(1) have fe: "filter (\<lambda>b. userId b = uid) (bids a) = []"
    by (auto simp: filter_empty_conv)
  from ne(2) have fd: "filter (\<lambda>b. bidder_id b = uid \<and> auctionItem b = i) (bidDocs s) = []"
    by (auto simp: filter_empty_conv doc_bidders_def)
  let ?a' = "a\<lparr>bids := bids a @ [\<lparr>userId = uid, userName = u_userName u,
               profileImage = u_profileImage u, amount = n\<rparr>], currentBid := n\<rparr>"
  have f1: "findById a_id i (auctions s') = Some ?a'"
    using s' a i by (auto simp: findById_updateOne)
  have f2: "map amount (filter (\<lambda>b. userId b = uid) (bids ?a')) = [n]"
    using fe by simp
  have f3: "map bid_amount
      (filter (\<lambda>b. bidder_id b = uid \<and> auctionItem b = i) (bidDocs s')) = [n]"
    using fd s' by auto
  show ?thesis
    apply (rule exI [of _ ?a'])
    apply (rule exI [of _ n])
    using f1 f2 f3 2(2) ne(1) by simp
qed

text \<open>
  C2, as amended. \<open>placeBid\<close> preserves, for every auction, that its embedded entries
  and its Bid documents are synchronized: the same bidders, each at most once on either
  side. From such a store a committed bid leaves the bidder with exactly one entry and
  exactly one document for the auction, both carrying the new amount; and when the
  bidder had an entry already, neither list has grown: the amounts were revised in place.
\<close>

theorem placeBid_keeps_records_synced:
  assumes "synced_at j s" and "placeBid uid pid amt pre s = (r, s')"
  shows "synced_at j s' \<and>
         (r = Inr v \<and> pid = ObjId j \<and> findById a_id j (auctions s) = Some a \<longrightarrow>
            (\<exists>a' n. findById a_id j (auctions s') = Some a' \<and> castNumber amt = Some n \<and>
               map amount (filter (\<lambda>b. userId b = uid) (bids a')) = [n] \<and>
               map bid_amount
                 (filter (\<lambda>b. bidder_id b = uid \<and> auctionItem b = j) (bidDocs s')) = [n] \<and>
               (uid \<in> set (map userId (bids a)) \<longrightarrow>
                  length (bids a') = length (bids a) \<and>
                  length (bidDocs s') = length (bidDocs s))))"
proof
  from placeBid_outcome [OF assms(2)] show "synced_at j s'"
    using assms(1) placeBid_txn_synced by blast
next
  show "r = Inr v \<and> pid = ObjId j \<and> findById a_id j (auctions s) = Some a \<longrightarrow>
            (\<exists>a' n. findById a_id j (auctions s') = Some a' \<and> castNumber amt = Some n \<and>
               map amount (filter (\<lambda>b. userId b = uid) (bids a')) = [n] \<and>
               map bid_amount
                 (filter (\<lambda>b. bidder_id b = uid \<and> auctionItem b = j) (bidDocs s')) = [n] \<and>
               (uid \<in> set (map userId (bids a)) \<longrightarrow>
                  length (bids a') = length (bids a) \<and>
                  length (bidDocs s') = length (bidDocs s)))"
  proof
    assume h: "r = Inr v \<and> pid = ObjId j \<and> findById a_id j (auctions s) = Some a"
    with placeBid_outcome [OF assms(2)] have "placeBid_txn uid j amt s = Inr s'" by auto
    from placeBid_txn_one_record [OF assms(1) this] h
    show "\<exists>a' n. findById a_id j (auctions s') = Some a' \<and> castNumber amt = Some n \<and>
               map amount (filter (\<lambda>b. userId b = uid) (bids a')) = [n] \<and>
               map bid_amount
                 (filter (\<lambda>b. bidder_id b = uid \<and> auctionItem b = j) (bidDocs s')) = [n] \<and>
               (uid \<in> set (map userId (bids a)) \<longrightarrow>
                  length (bids a') = length (bids a) \<and>
                  length (bidDocs s') = length (bidDocs s))"
      by blast
  qed
qed


text \<open>C2, an instance: Alice, who holds the lot at 150, raises to 180.\<close>

theorem placeBid_keeps_records_synced_witness:
  "synced_at 10 shop_bid \<and>
   placeBid 2 (ObjId 10) (JNum 180) shop_bid shop_bid =
     (Inr (JNum 180), snd (placeBid 2 (ObjId 10) (JNum 180) shop_bid shop_bid)) \<and>
   findById a_id 10 (auctions shop_bid) = Some lot_bid \<and>
   2 \<in> set (map userId (bids lot_bid)) \<and>
   synced_at 10 (snd (placeBid 2 (ObjId 10) (JNum 180) shop_bid shop_bid)) \<and>
   (\<exists>a' n. findById a_id 10
               (auctions (snd (placeBid 2 (ObjId 10) (JNum 180) shop_bid shop_bid))) = Some a' \<and>
       castNumber (JNum 180) = Some n \<and>
       map amount (filter (\<lambda>b. userId b = 2) (bids a')) = [n] \<and>
       map bid_amount (filter (\<lambda>b. bidder_id b = 2 \<and> auctionItem b = 10)
         (bidDocs (snd (placeBid 2 (ObjId 10) (JNum 180) shop_bid shop_bid)))) = [n] \<and>
       length (bids a') = length (bids lot_bid) \<and>
       length (bidDocs (snd (placeBid 2 (ObjId 10) (JNum 180) shop_bid shop_bid))) =
         length (bidDocs shop_bid))"
proof -
  have h1: "synced_at 10 shop_bid"
    by (simp add: synced_at_def synced_def doc_bidders_def findById_def shop_bid_def
        lot_bid_def lot_def alice_entry_def alice_doc_def)
  have h2: "placeBid 2 (ObjId 10) (JNum 180) shop_bid shop_bid =
     (Inr (JNum 180), snd (placeBid 2 (ObjId 10) (JNum 180) shop_bid shop_bid))"
    by (simp add: placeBid_def placeBid_txn_def findById_def js_le_def js_lt_def
        shop_bid_def lot_bid_def lot_def alice_entry_def alice_doc_def Let_def)
  have h3: "findById a_id 10 (auctions shop_bid) = Some lot_bid"
    by (simp add: findById_def shop_bid_def lot_bid_def lot_def)
  have h4: "2 \<in> set (map userId (bids lot_bid))"
    by (simp add: lot_bid_def alice_entry_def)
  show ?thesis
    using h1 h2 h3 h4
      placeBid_keeps_records_synced [OF h1 h2, of "JNum 180" lot_bid]
    by simp
qed

text \<open>
  C2 as stated fails: "at most one entry and at most one document per bidder" holds of
  the store where Alice has her entry and no document, and after her bid of 180 she has
  two entries.
\<close>

theorem placeBid_entry_only_counterexample:
  "length (filter (\<lambda>b. userId b = 2) (bids lot_bid)) \<le> 1 \<and>
   length (filter (\<lambda>b. bidder_id b = 2 \<and> auctionItem b = 10) (bidDocs shop_entry_only)) \<le> 1 \<and>
   fst (placeBid 2 (ObjId 10) (JNum 180) shop_entry_only shop_entry_only) = Inr (JNum 180) \<and>
   map (\<lambda>a. map (\<lambda>b. (userId b, amount b)) (bids a))
     (auctions (snd (placeBid 2 (ObjId 10) (JNum 180) shop_entry_only shop_entry_only))) =
     [[(2, 150), (2, 180)]]"
  by (simp add: placeBid_def placeBid_txn_def findById_def js_le_def js_lt_def save_auction_def
      shop_entry_only_def lot_bid_def lot_def alice_entry_def seller_def alice_def bob_def Let_def)

section \<open>placeBid: one record present, the other absent\<close>

lemma truthy_castNumber: "truthy amt \<Longrightarrow> \<exists>n. castNumber amt = Some n \<and> toNumber amt = Some n"
  by (cases amt) auto

text \<open>
  C3, as amended. When exactly one of the two records of the bidder exists, \<open>placeBid\<close>
  repairs nothing: a bid that passes the checks takes the branch of the first bid. It
  appends a new Bid document and a new embedded entry, both with the new amount, sets
  \<open>currentBid\<close>, and leaves the record that existed as it was.
\<close>

theorem placeBid_mixed_existence_inserts:
  assumes "findById a_id i (auctions pre) = Some a0" and "truthy amt"
    and "\<not> js_le amt (currentBid a0)" and "\<not> js_lt amt (startingBid a0)"
    and "findById a_id i (auctions s) = Some a" and "findById u_id uid (users s) = Some u"
    and "(find (\<lambda>b. bidder_id b = uid \<and> auctionItem b = i) (bidDocs s) = None) \<noteq>
         (find (\<lambda>b. userId b = uid) (bids a) = None)"
  shows "\<exists>n. castNumber amt = Some n \<and>
    placeBid uid (ObjId i) amt pre s =
      (Inr amt,
       s\<lparr>auctions := updateOne (\<lambda>x. a_id x = i)
              (\<lambda>_. a\<lparr>bids := bids a @ [\<lparr>userId = uid, userName = u_userName u,
                        profileImage = u_profileImage u, amount = n\<rparr>],
                      currentBid := n\<rparr>) (auctions s),
          bidDocs := bidDocs s @ [\<lparr>bid_amount = n, bidder_id = uid,
                        bidder_userName = u_userName u,
                        bidder_profileImage = u_profileImage u, auctionItem = i\<rparr>]\<rparr>)"
proof -
  from assms(2) obtain n where n: "castNumber amt = Some n"
    using truthy_castNumber by blast
  from assms(7) have m: "find (\<lambda>b. bidder_id b = uid \<and> auctionItem b = i) (bidDocs s) = None \<or>
      find (\<lambda>b. userId b = uid) (bids a) = None" by auto
  note t = placeBid_txn_insert [OF assms(5) n m assms(6)]
  show ?thesis
    using assms(1-4) n t by (simp add: placeBid_def)
qed

text \<open>C3, an instance: Alice has a Bid document of 150 and no entry, and bids 180.\<close>

theorem placeBid_mixed_existence_inserts_witness:
  "placeBid 2 (ObjId 10) (JNum 180) shop_doc_only shop_doc_only =
     (Inr (JNum 180),
      \<lparr>auctions = [lot\<lparr>currentBid := 180,
          bids := [\<lparr>userId = 2, userName = ''alice'', profileImage = None, amount = 180\<rparr>]\<rparr>],
       bidDocs = [alice_doc, \<lparr>bid_amount = 180, bidder_id = 2, bidder_userName = ''alice'',
          bidder_profileImage = None, auctionItem = 10\<rparr>],
       users = [seller, alice, bob]\<rparr>)"
proof -
  have h1: "findById a_id 10 (auctions shop_doc_only) = Some (lot\<lparr>currentBid := 150\<rparr>)"
    by (simp add: findById_def shop_doc_only_def lot_def)
  have h2: "truthy (JNum 180)" by simp
  have h3: "\<not> js_le (JNum 180) (currentBid (lot\<lparr>currentBid := 150\<rparr>))"
    by (simp add: js_le_def)
  have h4: "\<not> js_lt (JNum 180) (startingBid (lot\<lparr>currentBid := 150\<rparr>))"
    by (simp add: js_lt_def lot_def)
  have h5: "findById u_id 2 (users shop_doc_only) = Some alice"
    by (simp add: findById_def shop_doc_only_def seller_def alice_def)
  have h6: "(find (\<lambda>b. bidder_id b = 2 \<and> auctionItem b = 10) (bidDocs shop_doc_only) = None) \<noteq>
         (find (\<lambda>b. userId b = 2) (bids (lot\<lparr>currentBid := 150\<rparr>)) = None)"
    by (simp add: shop_doc_only_def alice_doc_def lot_def)
  show ?thesis
    using placeBid_mixed_existence_inserts [OF h1 h2 h3 h4 h1 h5 h6]
    by (simp add: shop_doc_only_def lot_def alice_def)
qed

text \<open>
  C3 as stated fails on that store: the old document is neither reused nor updated, and
  Alice ends with two Bid documents for the lot, of 150 and of 180.
\<close>

theorem placeBid_doc_only_counterexample:
  "map (\<lambda>b. (bidder_id b, auctionItem b, bid_amount b)) (bidDocs shop_doc_only) = [(2, 10, 150)] \<and>
   fst (placeBid 2 (ObjId 10) (JNum 180) shop_doc_only shop_doc_only) = Inr (JNum 180) \<and>
   map (\<lambda>b. (bidder_id b, auctionItem b, bid_amount b))
     (bidDocs (snd (placeBid 2 (ObjId 10) (JNum 180) shop_doc_only shop_doc_only))) =
     [(2, 10, 150), (2, 10, 180)]"
  by (simp add: placeBid_def placeBid_txn_def findById_def js_le_def js_lt_def save_auction_def
      shop_doc_only_def lot_def alice_doc_def seller_def alice_def bob_def Let_def)

section \<open>placeBid: the comparison with the current bid\<close>

text \<open>
  C1. The comparison of the amount with \<open>currentBid\<close> is made on the auction read before
  the transaction only; the transaction reads the auction again and writes
  \<open>currentBid\<close> without comparing. Alice's request reads the open lot (current bid 0);
  Bob's bid of 200 is committed; Alice's transaction then commits 150, and the current
  bid of the lot goes from 200 down to 150.
\<close>

theorem placeBid_stale_read_lowers_currentBid:
  "placeBid 3 (ObjId 10) (JNum 200) shop shop = (Inr (JNum 200), shop_after_bob) \<and>
   map currentBid (auctions shop_after_bob) = [200] \<and>
   fst (placeBid 2 (ObjId 10) (JNum 150) shop shop_after_bob) = Inr (JNum 150) \<and>
   map currentBid (auctions (snd (placeBid 2 (ObjId 10) (JNum 150) shop shop_after_bob))) = [150]"
  by (simp add: shop_after_bob_def placeBid_def placeBid_txn_def findById_def js_le_def js_lt_def
      save_auction_def shop_def lot_def seller_def alice_def bob_def Let_def)

text \<open>
  When nothing is committed between the read and the transaction, a committed bid
  raises the current bid.
\<close>

lemma placeBid_fresh_read_raises_currentBid:
  assumes "placeBid uid (ObjId i) amt s s = (Inr v, s')"
    and "findById a_id i (auctions s) = Some a"
  shows "\<exists>a'. findById a_id i (auctions s') = Some a' \<and> currentBid a < currentBid a'"
proof -
  from assms have c: "truthy amt" "\<not> js_le amt (currentBid a)"
    and t: "placeBid_txn uid i amt s = Inr s'"
    by (auto simp: placeBid_def split: if_splits sum.splits)
  from c(1) obtain n where n: "castNumber amt = Some n" "toNumber amt = Some n"
    using truthy_castNumber by blast
  with c(2) have lt: "currentBid a < n" by (simp add: js_le_def)
  from assms(2) have i: "a_id a = i" by (simp add: findById_SomeD)
  from t show ?thesis
  proof (cases rule: placeBid_txn_cases)
    case (1 a1 n1)
    with assms(2) n have [simp]: "a1 = a" "n1 = n" by simp_all
    from t [unfolded placeBid_txn_update [OF 1]] assms(2) i lt show ?thesis
      by (auto simp: findById_updateOne)
  next
    case (2 a1 n1 u)
    with assms(2) n have [simp]: "a1 = a" "n1 = n" by simp_all
    from t [unfolded placeBid_txn_insert [OF 2]] assms(2) i lt show ?thesis
      by (auto simp: findById_updateOne)
  qed
qed

section \<open>republishItem: rollback and reset\<close>

text \<open>
  The store the transaction commits for an ended auction with a highest bidder, when
  that bidder and the requesting user exist.
\<close>

lemma republish_txn_commit:
  assumes a: "findById a_id i (auctions s) = Some a" and "endTime a \<le> now"
    and h: "highestBidder a = Some h" and hb: "findById u_id h (users s) = Some hb"
    and c: "findById u_id uid (users s) = Some c"
  shows "republish_txn uid i (Some ns) (Some ne) now s =
    Inr (save_user
          ((if uid = h then hb\<lparr>moneySpent := moneySpent hb - currentBid a,
                                auctionsWon := auctionsWon hb - 1\<rparr> else c)
             \<lparr>unpaidCommission := 0\<rparr>)
          ((save_auction (a\<lparr>startTime := ns, endTime := ne, bids := [],
               commissionCalculated := False, currentBid := 0, highestBidder := None\<rparr>)
             (save_user (hb\<lparr>moneySpent := moneySpent hb - currentBid a,
                             auctionsWon := auctionsWon hb - 1\<rparr>) s))
            \<lparr>bidDocs := filter (\<lambda>b. auctionItem b \<noteq> i) (bidDocs s)\<rparr>))"
proof -
  from a have i: "a_id a = i" by (simp add: findById_SomeD)
  from hb have uh: "u_id hb = h" by (simp add: findById_SomeD)
  from c have uc: "u_id c = uid" by (simp add: findById_SomeD)
  show ?thesis
    using assms i uh uc
    by (simp add: republish_txn_def rollback_highest_def Let_def save_user_def
        save_auction_def findById_updateOne)
qed

text \<open>
  C6, as amended. For an ended auction whose \<open>highestBidder\<close> is set, a republish with
  a new window that starts no earlier than now and ends after its start, by a user who
  exists, succeeds whatever \<open>commissionCalculated\<close> is, and in the store it leaves: the
  highest bidder's \<open>moneySpent\<close> is lower by the \<open>currentBid\<close> the auction has when the
  republish runs and the \<open>auctionsWon\<close> lower by 1 (both subtractions being exact); the
  auction has the new start and end, \<open>bids = []\<close>, \<open>commissionCalculated = false\<close>,
  \<open>currentBid = 0\<close>, \<open>highestBidder = null\<close>; and the Bid documents are those that do
  not reference the auction. The two counters are back at their values before the
  settlement when the highest bidder's record is the one that the settlement of this
  auction at this \<open>currentBid\<close> left.
\<close>

theorem republishItem_rolls_back_winner_and_resets:
  assumes a: "findById a_id i (auctions s) = Some a" and e: "endTime a \<le> now"
    and h: "highestBidder a = Some h" and hb: "findById u_id h (users s) = Some hb"
    and c: "findById u_id uid (users s) = Some c"
    and t: "now0 \<le> ns" "ns < ne"
    and x: "exact_sub (moneySpent hb) (currentBid a)" "exact_sub (auctionsWon hb) 1"
  shows "\<exists>s' hb'.
    republishItem uid (ObjId i) (DateText (Some ns)) (DateText (Some ne)) now0 now s =
      (Inr (Some (a\<lparr>startTime := ns, endTime := ne, bids := [],
          commissionCalculated := False, currentBid := 0, highestBidder := None\<rparr>)), s') \<and>
    findById a_id i (auctions s') =
      Some (a\<lparr>startTime := ns, endTime := ne, bids := [],
          commissionCalculated := False, currentBid := 0, highestBidder := None\<rparr>) \<and>
    bidDocs s' = filter (\<lambda>b. auctionItem b \<noteq> i) (bidDocs s) \<and>
    findById u_id h (users s') = Some hb' \<and>
    moneySpent hb' = moneySpent hb - currentBid a \<and>
    auctionsWon hb' = auctionsWon hb - 1 \<and>
    (hb = settle_winner a w \<longrightarrow>
       moneySpent hb' = moneySpent w \<and> auctionsWon hb' = auctionsWon w)"
proof -
  from a have i: "a_id a = i" by (simp add: findById_SomeD)
  from hb have uh: "u_id hb = h" by (simp add: findById_SomeD)
  from c have uc: "u_id c = uid" by (simp add: findById_SomeD)
  note txn = republish_txn_commit [OF a e h hb c, of ns ne]
  show ?thesis
    using t a hb c i uh uc
    by (auto simp: republishItem_def txn save_user_def save_auction_def findById_updateOne
        settle_winner_def)
qed

text \<open>
  C6, an instance: the seller republishes the lot that Bob won at 200, settled and with
  no bid since; Bob is back at 100 spent and 1 auction won.
\<close>

theorem republishItem_rolls_back_winner_and_resets_witness:
  "findById a_id 10 (auctions shop_sold) = Some lot_sold \<and> endTime lot_sold \<le> 5000 \<and>
   highestBidder lot_sold = Some 3 \<and> findById u_id 3 (users shop_sold) = Some bob \<and>
   findById u_id 1 (users shop_sold) = Some seller \<and>
   exact_sub (moneySpent bob) (currentBid lot_sold) \<and> exact_sub (auctionsWon bob) 1 \<and>
   bob = settle_winner lot_sold bob_before \<and>
   (\<exists>s' hb'.
     republishItem 1 (ObjId 10) (DateText (Some 6000)) (DateText (Some 7000)) 5000 5000
       shop_sold =
       (Inr (Some (lot_sold\<lparr>startTime := 6000, endTime := 7000, bids := [],
          commissionCalculated := False, currentBid := 0, highestBidder := None\<rparr>)), s') \<and>
     findById a_id 10 (auctions s') =
       Some (lot_sold\<lparr>startTime := 6000, endTime := 7000, bids := [],
          commissionCalculated := False, currentBid := 0, highestBidder := None\<rparr>) \<and>
     bidDocs s' = filter (\<lambda>b. auctionItem b \<noteq> 10) (bidDocs shop_sold) \<and>
     findById u_id 3 (users s') = Some hb' \<and>
     moneySpent hb' = moneySpent bob - currentBid lot_sold \<and>
     auctionsWon hb' = auctionsWon bob - 1 \<and>
     moneySpent hb' = 100 \<and> auctionsWon hb' = 1)"
proof -
  have h1: "findById a_id 10 (auctions shop_sold) = Some lot_sold"
    by (simp add: findById_def shop_sold_def lot_sold_def lot_def)
  have h2: "endTime lot_sold \<le> 5000" by (simp add: lot_sold_def lot_def)
  have h3: "highestBidder lot_sold = Some 3" by (simp add: lot_sold_def)
  have h4: "findById u_id 3 (users shop_sold) = Some bob"
    by (simp add: findById_def shop_sold_def seller_def alice_def bob_def)
  have h5: "findById u_id 1 (users shop_sold) = Some seller"
    by (simp add: findById_def shop_sold_def seller_def)
  have h6: "(5000::int) \<le> 6000" "(6000::int) < 7000" by simp_all
  have h7: "exact_sub (moneySpent bob) (currentBid lot_sold)" "exact_sub (auctionsWon bob) 1"
    by (simp_all add: exact_sub_def safe_int_def bob_def lot_sold_def lot_def)
  have h8: "bob = settle_winner lot_sold bob_before"
    by (simp add: settle_winner_def bob_before_def bob_def lot_sold_def lot_def)
  have h9: "moneySpent bob_before = 100" "auctionsWon bob_before = 1"
    by (simp_all add: bob_before_def)
  show ?thesis
    using h1 h2 h3 h4 h5 h7 h8 h9
      republishItem_rolls_back_winner_and_resets [OF h1 h2 h3 h4 h5 h6 h7, of bob_before]
    by simp
qed

text \<open>
  C6 as stated fails: the republish does not always take back what the settlement
  added. \<open>placeBid\<close> reads no clock, so Alice's bid of 250 on the settled lot is accepted
  and raises its \<open>currentBid\<close> from 200 to 250. The settlement had added 200 to the 100
  Bob had spent; the republish then subtracts 250 and leaves him at 50.
\<close>

theorem republishItem_after_late_bid_counterexample:
  "bob = settle_winner lot_sold bob_before \<and> moneySpent bob_before = 100 \<and>
   currentBid lot_sold = 200 \<and>
   placeBid 2 (ObjId 10) (JNum 250) shop_sold shop_sold = (Inr (JNum 250), shop_late_bid) \<and>
   map currentBid (auctions shop_late_bid) = [250] \<and>
   map highestBidder (auctions shop_late_bid) = [Some 3] \<and>
   fst (republishItem 1 (ObjId 10) (DateText (Some 6000)) (DateText (Some 7000)) 5000 5000
          shop_late_bid) =
     Inr (Some (lot_sold\<lparr>startTime := 6000, endTime := 7000, bids := [],
        commissionCalculated := False, currentBid := 0, highestBidder := None\<rparr>)) \<and>
   map (\<lambda>u. (u_id u, moneySpent u, auctionsWon u))
     (users (snd (republishItem 1 (ObjId 10) (DateText (Some 6000)) (DateText (Some 7000))
        5000 5000 shop_late_bid))) =
     [(1, 0, 0), (2, 0, 0), (3, 50, 1)]"
  by (simp add: shop_late_bid_def placeBid_def placeBid_txn_def republishItem_def
      republish_txn_def rollback_highest_def save_user_def save_auction_def findById_def
      js_le_def js_lt_def Let_def settle_winner_def bob_before_def shop_sold_def
      lot_sold_def lot_def alice_entry_def bob_entry_def alice_doc_def bob_doc_def
      seller_def alice_def bob_def)

text \<open>
  Carol (user 4) republishes the lot created by the seller (user 1): the republish
  succeeds, the seller still owes 50 and Carol's 70 are reset to 0.
\<close>

lemma republishItem_resets_requester_commission:
  "createdBy lot_sold = 1 \<and>
   map (\<lambda>u. (u_id u, unpaidCommission u)) (users shop_sold_carol) =
     [(1, 50), (2, 0), (3, 30), (4, 70)] \<and>
   fst (republishItem 4 (ObjId 10) (DateText (Some 6000)) (DateText (Some 7000)) 5000 5000
          shop_sold_carol) =
     Inr (Some (lot_sold\<lparr>startTime := 6000, endTime := 7000, bids := [],
        commissionCalculated := False, currentBid := 0, highestBidder := None\<rparr>)) \<and>
   map (\<lambda>u. (u_id u, unpaidCommission u))
     (users (snd (republishItem 4 (ObjId 10) (DateText (Some 6000)) (DateText (Some 7000))
        5000 5000 shop_sold_carol))) =
     [(1, 50), (2, 0), (3, 30), (4, 0)]"
  by (simp add: republishItem_def republish_txn_def rollback_highest_def save_user_def
      save_auction_def findById_def Let_def shop_sold_carol_def lot_sold_def lot_def
      seller_def alice_def bob_def carol_def)

text \<open>After a commit the requesting user owes no commission.\<close>

lemma republish_txn_requester_reset:
  assumes "republish_txn uid i newStart newEnd now s = Inr s'"
  shows "\<exists>c. findById u_id uid (users s') = Some c \<and> unpaidCommission c = 0"
  using assms
  by (auto simp: republish_txn_def Let_def save_user_def findById_updateOne
      split: option.splits if_splits sum.splits dest: findById_SomeD)

text \<open>
  The rollback of the highest bidder and the whole transaction leave the
  \<open>unpaidCommission\<close> of every user but the requesting one as it was.
\<close>

lemma rollback_highest_other_user:
  assumes "rollback_highest a s = Inr s1" and "findById u_id k (users s) = Some u"
  shows "\<exists>u1. findById u_id k (users s1) = Some u1 \<and> unpaidCommission u1 = unpaidCommission u"
proof (cases "highestBidder a")
  case None
  with assms show ?thesis by (simp add: rollback_highest_def)
next
  case (Some h)
  with assms(1) obtain hb where hb: "findById u_id h (users s) = Some hb"
    and s1: "s1 = save_user (hb\<lparr>moneySpent := moneySpent hb - currentBid a,
                                auctionsWon := auctionsWon hb - 1\<rparr>) s"
    by (auto simp: rollback_highest_def split: option.splits)
  from hb have "u_id hb = h" by (simp add: findById_SomeD)
  with s1 hb assms(2) show ?thesis
    by (cases "k = h") (simp_all add: save_user_def findById_updateOne)
qed

lemma republish_txn_users:
  assumes "republish_txn uid i newStart newEnd now s = Inr s'"
  shows "\<exists>a s1 creator. rollback_highest a s = Inr s1 \<and>
           findById u_id uid (users s1) = Some creator \<and>
           users s' = updateOne (\<lambda>x. u_id x = u_id creator)
                        (\<lambda>_. creator\<lparr>unpaidCommission := 0\<rparr>) (users s1)"
proof -
  from assms obtain a where a: "findById a_id i (auctions s) = Some a"
    by (auto simp: republish_txn_def split: option.splits)
  with assms obtain s1 where r: "rollback_highest a s = Inr s1"
    by (auto simp: republish_txn_def split: if_splits sum.splits)
  with assms a obtain creator where
    c: "findById u_id uid (users s1) = Some creator" and
    u: "users s' = updateOne (\<lambda>x. u_id x = u_id creator)
                        (\<lambda>_. creator\<lparr>unpaidCommission := 0\<rparr>) (users s1)"
    by (auto simp: republish_txn_def Let_def save_user_def save_auction_def
        split: option.splits if_splits)
  from r c u show ?thesis by blast
qed

lemma republish_txn_other_user:
  assumes "republish_txn uid i newStart newEnd now s = Inr s'"
    and "findById u_id k (users s) = Some u" and "k \<noteq> uid"
  shows "\<exists>u'. findById u_id k (users s') = Some u' \<and> unpaidCommission u' = unpaidCommission u"
proof -
  from republish_txn_users [OF assms(1)] obtain a s1 creator where
    r: "rollback_highest a s = Inr s1" and c: "findById u_id uid (users s1) = Some creator"
    and u: "users s' = updateOne (\<lambda>x. u_id x = u_id creator)
                        (\<lambda>_. creator\<lparr>unpaidCommission := 0\<rparr>) (users s1)"
    by blast
  from c have "u_id creator = uid" by (simp add: findById_SomeD)
  with u assms(3) have "findById u_id k (users s') = findById u_id k (users s1)"
    by (simp add: findById_updateOne)
  with rollback_highest_other_user [OF r assms(2)] show ?thesis by simp
qed

text \<open>
  C7. The user whose \<open>unpaidCommission\<close> a successful republish sets to 0 is the
  requesting user, fetched by \<^verbatim>\<open>req.user._id\<close>; it is a full reset. Every other
  user keeps the commission owed, the creator in the auction's \<open>createdBy\<close> too when
  somebody else sends the request.
\<close>

theorem republishItem_resets_requester_only:
  assumes "republishItem uid pid start end now0 now s = (Inr r, s')"
    and "findById u_id k (users s) = Some u" and "k \<noteq> uid"
  shows "(\<exists>c. findById u_id uid (users s') = Some c \<and> unpaidCommission c = 0) \<and>
         (\<exists>u'. findById u_id k (users s') = Some u' \<and> unpaidCommission u' = unpaidCommission u)"
proof -
  from assms(1) obtain i ns ne where "republish_txn uid i ns ne now s = Inr s'"
    by (auto simp: republishItem_def Let_def split: param_id.splits if_splits sum.splits)
  from republish_txn_requester_reset [OF this] republish_txn_other_user [OF this assms(2,3)]
  show ?thesis by simp
qed

text \<open>
  C7, the instance: Carol (user 4) republishes the lot created by the seller (user 1);
  her commission is reset and the seller still owes 50.
\<close>

theorem republishItem_resets_requester_only_witness:
  "republishItem 4 (ObjId 10) (DateText (Some 6000)) (DateText (Some 7000)) 5000 5000
     shop_sold_carol =
     (Inr (Some (lot_sold\<lparr>startTime := 6000, endTime := 7000, bids := [],
        commissionCalculated := False, currentBid := 0, highestBidder := None\<rparr>)),
      snd (republishItem 4 (ObjId 10) (DateText (Some 6000)) (DateText (Some 7000)) 5000 5000
        shop_sold_carol)) \<and>
   findById u_id (createdBy lot_sold) (users shop_sold_carol) = Some seller \<and>
   createdBy lot_sold \<noteq> 4 \<and>
   (\<exists>c. findById u_id 4
          (users (snd (republishItem 4 (ObjId 10) (DateText (Some 6000))
             (DateText (Some 7000)) 5000 5000 shop_sold_carol))) = Some c \<and>
        unpaidCommission c = 0) \<and>
   (\<exists>u'. findById u_id (createdBy lot_sold)
          (users (snd (republishItem 4 (ObjId 10) (DateText (Some 6000))
             (DateText (Some 7000)) 5000 5000 shop_sold_carol))) = Some u' \<and>
        unpaidCommission u' = 50)"
proof -
  have h1: "republishItem 4 (ObjId 10) (DateText (Some 6000)) (DateText (Some 7000)) 5000 5000
     shop_sold_carol =
     (Inr (Some (lot_sold\<lparr>startTime := 6000, endTime := 7000, bids := [],
        commissionCalculated := False, currentBid := 0, highestBidder := None\<rparr>)),
      snd (republishItem 4 (ObjId 10) (DateText (Some 6000)) (DateText (Some 7000)) 5000 5000
        shop_sold_carol))"
    by (simp add: republishItem_def republish_txn_def rollback_highest_def save_user_def
      save_auction_def findById_def Let_def shop_sold_carol_def lot_sold_def lot_def
      seller_def alice_def bob_def carol_def)
  have h2: "findById u_id (createdBy lot_sold) (users shop_sold_carol) = Some seller"
    by (simp add: findById_def shop_sold_carol_def lot_sold_def lot_def seller_def)
  have h3: "createdBy lot_sold \<noteq> 4" by (simp add: lot_sold_def lot_def)
  have h4: "unpaidCommission seller = 50" by (simp add: seller_def)
  show ?thesis
    using h1 h2 h3 h4 republishItem_resets_requester_only [OF h1 h2 h3] by simp
qed

text \<open>The transaction commits only for an auction that exists and has ended.\<close>

lemma republish_txn_errors:
  "republish_txn uid i newStart newEnd now s = Inr s' \<Longrightarrow>
     \<exists>a. findById a_id i (auctions s) = Some a \<and> endTime a \<le> now"
  by (auto simp: republish_txn_def split: option.splits if_splits)

text \<open>
  C8. A republish fails with an error and leaves the store unchanged whenever the
  auction does not exist, the new start is earlier than now, the new start is not
  strictly earlier than the new end, or the auction's \<open>endTime\<close> is later than now;
  and it changes the store only when the auction exists and has ended, the new start
  is not earlier than now and is strictly earlier than the new end.
\<close>

theorem republishItem_precondition_failure:
  assumes "republishItem uid (ObjId i) (DateText (Some ns)) (DateText (Some ne)) now0 now s
             = (r, s')"
  shows "(findById a_id i (auctions s) = None \<or> ns < now0 \<or> \<not> ns < ne \<or>
          (\<exists>a. findById a_id i (auctions s) = Some a \<and> now < endTime a)
            \<longrightarrow> (\<exists>e. r = Inl e) \<and> s' = s) \<and>
         (s' \<noteq> s \<longrightarrow>
            (\<exists>a. findById a_id i (auctions s) = Some a \<and> endTime a \<le> now) \<and>
            now0 \<le> ns \<and> ns < ne)"
  using assms
  by (auto simp: republishItem_def Let_def split: if_splits sum.splits
      dest!: republish_txn_errors)

text \<open>C8, an instance: the lot is live at instant 1500 and cannot be republished.\<close>

theorem republishItem_precondition_failure_witness:
  "(\<exists>a. findById a_id 10 (auctions shop) = Some a \<and> 1500 < endTime a) \<and>
   republishItem 1 (ObjId 10) (DateText (Some 3000)) (DateText (Some 4000)) 1500 1500 shop =
     (Inl (ErrorHandler ''Auction is already active, cannot republish'' (Some 400)), shop)"
proof -
  have h: "republishItem 1 (ObjId 10) (DateText (Some 3000)) (DateText (Some 4000)) 1500 1500
      shop = (Inl (ErrorHandler ''Auction is already active, cannot republish'' (Some 400)), shop)"
    by (simp add: republishItem_def republish_txn_def findById_def shop_def lot_def)
  have a: "\<exists>a. findById a_id 10 (auctions shop) = Some a \<and> 1500 < endTime a"
    by (simp add: findById_def shop_def lot_def)
  show ?thesis
    using a h republishItem_precondition_failure [OF h] by simp
qed

section \<open>addNewAuctionItem: one active auction per user\<close>

text \<open>The query finds an auction exactly when the user owns one that ends after now.\<close>

lemma active_auction_iff:
  "(alreadyOneAuctionActive uid now s \<noteq> []) =
     (\<exists>a\<in>set (auctions s). createdBy a = uid \<and> now < endTime a)"
  by (auto simp: alreadyOneAuctionActive_def filter_empty_conv)

text \<open>What \<open>create_auction\<close> throws, and what it stores.\<close>

lemma create_auction_error:
  "create_auction uid req pid secure_url s = Inl e \<Longrightarrow> e = Exception ''Auction validation failed''"
  by (auto simp: create_auction_def Let_def split: option.splits form_num.splits)

lemma create_auction_result:
  "create_auction uid req pid secure_url s = Inr (a, s') \<Longrightarrow>
     auctions s' = auctions s @ [a] \<and> createdBy a = uid \<and> bidDocs s' = bidDocs s \<and>
     users s' = users s"
  by (auto simp: create_auction_def Let_def split: option.splits form_num.splits)

text \<open>
  C10, as amended. Whenever the requesting user owns an auction whose \<open>endTime\<close> is
  strictly after now, \<open>addNewAuctionItem\<close> fails and creates nothing. The error is
  \<^verbatim>\<open>You already have one active auction.\<close> (400) exactly in that case once the
  request has passed the checks that come first (image present and of an allowed
  format, all fields given, start time not before now and before the end time); a
  request that fails one of those gets that check's error. A new auction is created
  only when the user owns no such auction, and it is the user's.
\<close>

theorem addNewAuctionItem_one_active_auction:
  "((\<exists>a\<in>set (auctions s). createdBy a = uid \<and> now < endTime a) \<longrightarrow>
      (\<exists>e. addNewAuctionItem uid req up now0 now s = (Inl e, s))) \<and>
   (check_item_request req now0 = None \<longrightarrow>
      (addNewAuctionItem uid req up now0 now s =
         (Inl (ErrorHandler ''You already have one active auction.'' (Some 400)), s))
      = (\<exists>a\<in>set (auctions s). createdBy a = uid \<and> now < endTime a)) \<and>
   (addNewAuctionItem uid req up now0 now s = (Inr a', s') \<longrightarrow>
      \<not> (\<exists>a\<in>set (auctions s). createdBy a = uid \<and> now < endTime a) \<and>
      auctions s' = auctions s @ [a'] \<and> createdBy a' = uid)"
proof -
  have c1: "\<exists>e. addNewAuctionItem uid req up now0 now s = (Inl e, s)"
    if "\<exists>a\<in>set (auctions s). createdBy a = uid \<and> now < endTime a"
  proof -
    from that have "alreadyOneAuctionActive uid now s \<noteq> []" by (simp add: active_auction_iff)
    then show ?thesis by (simp add: addNewAuctionItem_def split: option.splits)
  qed
  have c2: "(addNewAuctionItem uid req up now0 now s =
         (Inl (ErrorHandler ''You already have one active auction.'' (Some 400)), s))
      = (\<exists>a\<in>set (auctions s). createdBy a = uid \<and> now < endTime a)"
    if "check_item_request req now0 = None"
    using that unfolding active_auction_iff [symmetric]
    by (auto simp: addNewAuctionItem_def split: upload_result.splits sum.splits
        dest!: create_auction_error)
  have c3: "\<not> (\<exists>a\<in>set (auctions s). createdBy a = uid \<and> now < endTime a) \<and>
      auctions s' = auctions s @ [a'] \<and> createdBy a' = uid"
    if r: "addNewAuctionItem uid req up now0 now s = (Inr a', s')"
  proof -
    from r have n: "alreadyOneAuctionActive uid now s = []"
      by (auto simp: addNewAuctionItem_def split: option.splits if_splits)
    from r obtain pid secure_url where
      "create_auction uid req pid secure_url s = Inr (a', s')"
      by (auto simp: addNewAuctionItem_def
          split: option.splits if_splits upload_result.splits sum.splits)
    from create_auction_result [OF this] n show ?thesis
      unfolding active_auction_iff [symmetric] by simp
  qed
  from c1 c2 c3 show ?thesis by blast
qed

text \<open>
  C10, two instances at instant 1500, when the seller's lot is live: the seller's
  complete request is refused, and Carol's, who owns no auction, creates the vase.
\<close>

theorem addNewAuctionItem_one_active_auction_witness:
  "(\<exists>a\<in>set (auctions shop). createdBy a = 1 \<and> 1500 < endTime a) \<and>
   check_item_request lamp_request 1500 = None \<and>
   addNewAuctionItem 1 lamp_request (Uploaded ''p2'' ''u2'') 1500 1500 shop =
     (Inl (ErrorHandler ''You already have one active auction.'' (Some 400)), shop) \<and>
   addNewAuctionItem 4 lamp_request (Uploaded ''p2'' ''u2'') 1500 1500 shop =
     (Inr vase, shop\<lparr>auctions := [lot, vase]\<rparr>) \<and>
   \<not> (\<exists>a\<in>set (auctions shop). createdBy a = 4 \<and> 1500 < endTime a)"
proof -
  have h1: "\<exists>a\<in>set (auctions shop). createdBy a = 1 \<and> 1500 < endTime a"
    by (simp add: shop_def lot_def)
  have h2: "check_item_request lamp_request 1500 = None"
    by (simp add: check_item_request_def lamp_request_def allowedFormats_def)
  have h3: "addNewAuctionItem 4 lamp_request (Uploaded ''p2'' ''u2'') 1500 1500 shop =
     (Inr vase, shop\<lparr>auctions := [lot, vase]\<rparr>)"
    by (simp add: addNewAuctionItem_def check_item_request_def lamp_request_def
        allowedFormats_def alreadyOneAuctionActive_def create_auction_def fresh_id_def
        Let_def shop_def lot_def vase_def)
  show ?thesis
    using h1 h2 h3
      addNewAuctionItem_one_active_auction
        [of shop 1 1500 lamp_request "Uploaded ''p2'' ''u2''" 1500]
      addNewAuctionItem_one_active_auction
        [of shop 4 1500 lamp_request "Uploaded ''p2'' ''u2''" 1500 vase
          "shop\<lparr>auctions := [lot, vase]\<rparr>"]
    by simp
qed

text \<open>
  C10 as stated fails for a request that an earlier check refuses: the seller owns a
  live auction, and a request of his without an image gets the error of the image.
\<close>

theorem addNewAuctionItem_image_check_first_counterexample:
  "(\<exists>a\<in>set (auctions shop). createdBy a = 1 \<and> 1500 < endTime a) \<and>
   addNewAuctionItem 1 (lamp_request\<lparr>files := None\<rparr>) (Uploaded ''p2'' ''u2'') 1500 1500 shop =
     (Inl (ErrorHandler ''Auction item image required.'' (Some 400)), shop)"
  by (simp add: addNewAuctionItem_def check_item_request_def lamp_request_def shop_def lot_def)

end
